theory Spec2Isabelle
  imports Main "HOL-Library.Char_ord" "HOL-Library.List_Lexorder"
begin

section \<open>Conditions\<close>

text \<open>
  A condition of the declarative objects, as \<^verbatim>\<open>clusterv1.Condition\<close> has it. The
  condition type, the reason and every error are Go strings. The severity is a Go
  string too: the three named severities and the empty one (\<^verbatim>\<open>ConditionSeverityNone\<close>),
  which true and unknown conditions carry. The message is the call
  \<^verbatim>\<open>fmt.Sprintf(format, args...)\<close> the marking helpers make, kept with its format
  and its arguments. The transition time is left out.
\<close>

type_synonym ConditionType = string

datatype ConditionStatus = ConditionTrue | ConditionFalse | ConditionUnknown

datatype ConditionSeverity =
    ConditionSeverityError | ConditionSeverityWarning | ConditionSeverityInfo
  | ConditionSeverityNone

datatype Message = Sprintf string "string list"

record Condition =
  Status :: ConditionStatus
  Severity :: ConditionSeverity
  Reason :: string
  Msg :: Message

type_synonym Conditions = "ConditionType \<rightharpoonup> Condition"

text \<open>
  The helpers of \<^verbatim>\<open>sigs.k8s.io/cluster-api/util/conditions\<close> the program calls:
  \<^verbatim>\<open>Get\<close> looks a condition up by its type, \<^verbatim>\<open>IsTrue\<close> holds when it is there with
  status True, and the three markers build a condition and store it under its type.
\<close>

definition Get :: "Conditions \<Rightarrow> ConditionType \<Rightarrow> Condition option" where
  "Get cs t = cs t"

definition IsTrue :: "Conditions \<Rightarrow> ConditionType \<Rightarrow> bool" where
  "IsTrue cs t = (case Get cs t of None \<Rightarrow> False | Some c \<Rightarrow> Status c = ConditionTrue)"

definition TrueCondition :: Condition where
  "TrueCondition =
     \<lparr>Status = ConditionTrue, Severity = ConditionSeverityNone, Reason = [],
      Msg = Sprintf [] []\<rparr>"

definition FalseCondition :: "string \<Rightarrow> ConditionSeverity \<Rightarrow> Message \<Rightarrow> Condition" where
  "FalseCondition reason severity m =
     \<lparr>Status = ConditionFalse, Severity = severity, Reason = reason, Msg = m\<rparr>"

definition UnknownCondition :: "string \<Rightarrow> Message \<Rightarrow> Condition" where
  "UnknownCondition reason m =
     \<lparr>Status = ConditionUnknown, Severity = ConditionSeverityNone, Reason = reason, Msg = m\<rparr>"

definition MarkTrue :: "Conditions \<Rightarrow> ConditionType \<Rightarrow> Conditions" where
  "MarkTrue cs t = cs(t \<mapsto> TrueCondition)"

definition MarkFalse ::
  "Conditions \<Rightarrow> ConditionType \<Rightarrow> string \<Rightarrow> ConditionSeverity \<Rightarrow> Message \<Rightarrow> Conditions" where
  "MarkFalse cs t reason severity m = cs(t \<mapsto> FalseCondition reason severity m)"

definition MarkUnknown :: "Conditions \<Rightarrow> ConditionType \<Rightarrow> string \<Rightarrow> Message \<Rightarrow> Conditions" where
  "MarkUnknown cs t reason m = cs(t \<mapsto> UnknownCondition reason m)"

section \<open>Machines and the control plane\<close>

text \<open>
  The fields of \<^verbatim>\<open>clusterv1.Machine\<close> the program reads. \<^verbatim>\<open>collections.Machines\<close> is a
  Go map from the machine's name to the machine, which has no order: the list stands for
  the entries of the map in some order, and the properties below hold for every list.
\<close>

record Machine =
  Name :: string
  Annotations :: "string \<rightharpoonup> string"
  FailureDomain :: "string option"
  CreationTimestamp :: int
  MachineConditions :: Conditions

type_synonym Machines = "Machine list"

text \<open>
  \<^verbatim>\<open>ControlPlane\<close>: the conditions of the K3sControlPlane object, the failure domains of
  the cluster status (identifier and control-plane flag, \<^verbatim>\<open>None\<close> for the nil map) and
  the machines it owns.
\<close>

record ControlPlane =
  KCP :: Conditions
  ClusterFailureDomains :: "(string \<times> bool) list option"
  OwnedMachines :: Machines

section \<open>Aggregation of machine conditions to the control plane\<close>

text \<open>
  \<^verbatim>\<open>sets.String\<close>: \<^verbatim>\<open>Insert\<close> adds a member once, \<^verbatim>\<open>List\<close> returns the members sorted,
  \<^verbatim>\<open>strings.Join\<close> puts a separator between the elements.
\<close>

definition Insert :: "string list \<Rightarrow> string \<Rightarrow> string list" where
  "Insert s x = (if x \<in> set s then s else x # s)"

definition List_sorted :: "string list \<Rightarrow> string list" where
  "List_sorted s = sort s"

fun Join :: "string list \<Rightarrow> string \<Rightarrow> string" where
  "Join [] sep = []"
| "Join [x] sep = x"
| "Join (x # y # ys) sep = x @ sep @ Join (y # ys) sep"

record aggregateFromMachinesToKCPInput =
  controlPlane :: ControlPlane
  machineConditions :: "ConditionType list"
  kcpErrors :: "string list"
  condition :: ConditionType
  unhealthyReason :: string
  unknownReason :: string
  note_text :: string

text \<open>The five sets of machine names the function fills.\<close>

record Groups =
  kcpMachinesWithErrors :: "string list"
  kcpMachinesWithWarnings :: "string list"
  kcpMachinesWithInfo :: "string list"
  kcpMachinesWithTrue :: "string list"
  kcpMachinesWithUnknown :: "string list"

definition no_groups :: Groups where
  "no_groups =
     \<lparr>kcpMachinesWithErrors = [], kcpMachinesWithWarnings = [], kcpMachinesWithInfo = [],
      kcpMachinesWithTrue = [], kcpMachinesWithUnknown = []\<rparr>"

text \<open>
  The body of the inner loop: the switch on the status, and for a false condition the
  switch on the severity, which has no case for the empty severity.
\<close>

definition group_condition :: "string \<Rightarrow> Condition \<Rightarrow> Groups \<Rightarrow> Groups" where
  "group_condition name c g =
     (case Status c of
        ConditionTrue \<Rightarrow> g\<lparr>kcpMachinesWithTrue := Insert (kcpMachinesWithTrue g) name\<rparr>
      | ConditionFalse \<Rightarrow>
          (case Severity c of
             ConditionSeverityInfo \<Rightarrow>
               g\<lparr>kcpMachinesWithInfo := Insert (kcpMachinesWithInfo g) name\<rparr>
           | ConditionSeverityWarning \<Rightarrow>
               g\<lparr>kcpMachinesWithWarnings := Insert (kcpMachinesWithWarnings g) name\<rparr>
           | ConditionSeverityError \<Rightarrow>
               g\<lparr>kcpMachinesWithErrors := Insert (kcpMachinesWithErrors g) name\<rparr>
           | ConditionSeverityNone \<Rightarrow> g)
      | ConditionUnknown \<Rightarrow>
          g\<lparr>kcpMachinesWithUnknown := Insert (kcpMachinesWithUnknown g) name\<rparr>)"

fun group_machine :: "Machine \<Rightarrow> ConditionType list \<Rightarrow> Groups \<Rightarrow> Groups" where
  "group_machine m [] g = g"
| "group_machine m (t # ts) g =
     group_machine m ts
       (case Get (MachineConditions m) t of
          None \<Rightarrow> g
        | Some c \<Rightarrow> group_condition (Name m) c g)"

fun group_machines :: "Machines \<Rightarrow> ConditionType list \<Rightarrow> Groups \<Rightarrow> Groups" where
  "group_machines [] ts g = g"
| "group_machines (m # ms) ts g = group_machines ms ts (group_machine m ts g)"

text \<open>
  \<^verbatim>\<open>aggregateFromMachinesToKCP\<close>, returning the conditions of the K3sControlPlane
  object. The third test is on the set of warnings, as the source has it.
\<close>

definition aggregateFromMachinesToKCP :: "aggregateFromMachinesToKCPInput \<Rightarrow> Conditions" where
  "aggregateFromMachinesToKCP input =
     (let kcp = KCP (controlPlane input);
          g = group_machines (OwnedMachines (controlPlane input)) (machineConditions input)
                no_groups;
          errs =
            (if length (kcpMachinesWithErrors g) > 0
             then kcpErrors input @
               [''Following machines are reporting '' @ note_text input @ '' errors: '' @
                Join (List_sorted (kcpMachinesWithErrors g)) '', '']
             else kcpErrors input)
      in if length errs > 0 then
           MarkFalse kcp (condition input) (unhealthyReason input) ConditionSeverityError
             (Sprintf (Join errs ''; '') [])
         else if length (kcpMachinesWithWarnings g) > 0 then
           MarkFalse kcp (condition input) (unhealthyReason input) ConditionSeverityWarning
             (Sprintf ''Following machines are reporting %s warnings: %s''
                [note_text input, Join (List_sorted (kcpMachinesWithWarnings g)) '', ''])
         else if length (kcpMachinesWithWarnings g) > 0 then
           MarkFalse kcp (condition input) (unhealthyReason input) ConditionSeverityWarning
             (Sprintf ''Following machines are reporting %s info: %s''
                [note_text input, Join (List_sorted (kcpMachinesWithInfo g)) '', ''])
         else if length (kcpMachinesWithTrue g) > 0 then
           MarkTrue kcp (condition input)
         else if length (kcpMachinesWithUnknown g) > 0 then
           MarkUnknown kcp (condition input) (unknownReason input)
             (Sprintf ''Following machines are reporting unknown %s status: %s''
                [note_text input, Join (List_sorted (kcpMachinesWithUnknown g)) '', ''])
         else kcp)"

text \<open>
  The conditions the loop finds: for each machine, those of the listed types it carries.
\<close>

definition machine_reported :: "Machine \<Rightarrow> ConditionType list \<Rightarrow> Condition list" where
  "machine_reported m ts = List.map_filter (\<lambda>t. Get (MachineConditions m) t) ts"

definition reported :: "Machines \<Rightarrow> ConditionType list \<Rightarrow> Condition list" where
  "reported ms ts = concat (map (\<lambda>m. machine_reported m ts) ms)"

definition input_reported :: "aggregateFromMachinesToKCPInput \<Rightarrow> Condition list" where
  "input_reported input =
     reported (OwnedMachines (controlPlane input)) (machineConditions input)"

definition is_error :: "Condition \<Rightarrow> bool" where
  "is_error c = (Status c = ConditionFalse \<and> Severity c = ConditionSeverityError)"

definition is_warning :: "Condition \<Rightarrow> bool" where
  "is_warning c = (Status c = ConditionFalse \<and> Severity c = ConditionSeverityWarning)"

definition is_info :: "Condition \<Rightarrow> bool" where
  "is_info c = (Status c = ConditionFalse \<and> Severity c = ConditionSeverityInfo)"

text \<open>
  Inputs as \<^verbatim>\<open>UpdateAgentConditions\<close> builds them: one aggregated machine condition,
  the control-plane condition and its two reasons, the note \<^verbatim>\<open>control plane\<close>.
\<close>

definition machine_with :: "string \<Rightarrow> Condition \<Rightarrow> Machine" where
  "machine_with n c =
     \<lparr>Name = n, Annotations = Map.empty, FailureDomain = None, CreationTimestamp = 0,
      MachineConditions = [''AgentHealthy'' \<mapsto> c]\<rparr>"

definition agent_input :: "Machines \<Rightarrow> string list \<Rightarrow> aggregateFromMachinesToKCPInput" where
  "agent_input ms errs =
     \<lparr>controlPlane = \<lparr>KCP = Map.empty, ClusterFailureDomains = None, OwnedMachines = ms\<rparr>,
      machineConditions = [''AgentHealthy''],
      kcpErrors = errs,
      condition = ''ControlPlaneComponentsHealthy'',
      unhealthyReason = ''ControlPlaneComponentsUnhealthy'',
      unknownReason = ''ControlPlaneComponentsUnknown'',
      note_text = ''control plane''\<rparr>"

text \<open>The condition \<^verbatim>\<open>UpdateAgentConditions\<close> gives a machine that is being deleted.\<close>

definition deleting :: Condition where
  "deleting = FalseCondition ''Deleting'' ConditionSeverityInfo (Sprintf [] [])"

section \<open>The phases of the instance reconciler\<close>

text \<open>
  Modelled from the spec: the constants of \<^verbatim>\<open>api/v1beta1\<close>, which is not under src/.
  The distributions, the condition types and the reason codes carry the names the
  specification gives them; the properties below use only that they differ.
\<close>

definition KUBERNETES :: string where "KUBERNETES = ''Kubernetes''"
definition K3S :: string where "K3S = ''K3s''"

definition KKInstanceBootstrappedCondition :: ConditionType where
  "KKInstanceBootstrappedCondition = ''Bootstrapped''"
definition KKInstanceRepositoryReadyCondition :: ConditionType where
  "KKInstanceRepositoryReadyCondition = ''RepositoryReady''"
definition KKInstanceBinariesReadyCondition :: ConditionType where
  "KKInstanceBinariesReadyCondition = ''BinariesReady''"
definition KKInstanceCRIReadyCondition :: ConditionType where
  "KKInstanceCRIReadyCondition = ''CRIReady''"
definition KKInstanceProvisionedCondition :: ConditionType where
  "KKInstanceProvisionedCondition = ''Provisioned''"
definition KKInstanceDeletingBootstrapCondition :: ConditionType where
  "KKInstanceDeletingBootstrapCondition = ''DeletingBootstrap''"

definition KKInstanceInitOSFailedReason :: string where
  "KKInstanceInitOSFailedReason = ''InitOSFailed''"
definition KKInstanceRepositoryFailedReason :: string where
  "KKInstanceRepositoryFailedReason = ''RepositoryFailed''"
definition KKInstanceGetBinaryFailedReason :: string where
  "KKInstanceGetBinaryFailedReason = ''GetBinaryFailed''"
definition KKInstanceInstallCRIFailedReason :: string where
  "KKInstanceInstallCRIFailedReason = ''InstallCRIFailed''"
definition KKInstanceRunCloudConfigFailedReason :: string where
  "KKInstanceRunCloudConfigFailedReason = ''RunCloudConfigFailed''"
definition KKInstanceClearEnvironmentFailedReason :: string where
  "KKInstanceClearEnvironmentFailedReason = ''ClearEnvironmentFailed''"

text \<open>
  Modelled from the spec: the states of the host state machine (section 4.5); the type
  is declared in \<^verbatim>\<open>api/v1beta1\<close>. The phases set Bootstrapping and Cleaning.
\<close>

datatype InstanceState =
    InstanceStatePending | InstanceStateBootstrapping | InstanceStateRunning
  | InstanceStateCleaning | InstanceStateSucceeded | InstanceStateFailed

text \<open>
  The calls a phase makes on the services of the host (bootstrap, repository, binary,
  container manager) and on the SSH client, with the arguments the phase passes.
\<close>

datatype Action =
    AddUsers | SetHostname | CreateDirectory | ResetTmpDirectory | ExecInitScript
  | KubeadmReset string | ResetNetwork | RemoveFiles | DaemonReload | UninstallK3s
  | Check | RepositoryGet int | MountISO | UmountISO | UpdateAndInstall
  | Download int
  | IsExist | ContainerManagerGet int | Install
  | SudoCmd string

text \<open>
  What lies outside the reconciler. A call answers with its error (\<^verbatim>\<open>None\<close> for nil),
  which may depend on the calls made before it; \<^verbatim>\<open>IsExist\<close> answers with a boolean.
  The bootstrap data of the machine are an error or the data with their format, and the
  provisioning service turns data of a format into an error or the text of the commands.
\<close>

record World =
  respond :: "Action list \<Rightarrow> Action \<Rightarrow> string option"
  exists_runtime :: "Action list \<Rightarrow> bool"
  GetRawBootstrapDataWithFormat :: "string + (string \<times> string)"
  RawBootstrapDataToProvisioningCommands :: "string \<Rightarrow> string \<Rightarrow> string + string list"

text \<open>
  The instance scope: the conditions and the state of the KKInstance object, the CRI
  socket of its container manager, the calls made on the host so far and the events
  recorded (type, reason, message).
\<close>

record InstanceScope =
  KKInstance :: Conditions
  state :: InstanceState
  CRISocket :: string
  calls :: "Action list"
  events :: "(string \<times> string \<times> string) list"

record Reconciler =
  WaitKKInstanceTimeout :: int

type_synonym Outcome = "string option \<times> InstanceScope"

definition call :: "World \<Rightarrow> Action \<Rightarrow> InstanceScope \<Rightarrow> Outcome" where
  "call w a s = (respond w (calls s) a, s\<lparr>calls := calls s @ [a]\<rparr>)"

text \<open>\<^verbatim>\<open>if err := f(); err != nil { return err }\<close> followed by the rest of the body.\<close>

definition and_then :: "Outcome \<Rightarrow> (InstanceScope \<Rightarrow> Outcome) \<Rightarrow> Outcome" where
  "and_then r k = (case r of (Some e, s) \<Rightarrow> (Some e, s) | (None, s) \<Rightarrow> k s)"

text \<open>
  The deferred function every phase starts with: on return it marks the condition false,
  with the reason, the severity and the text of the error, or true.
\<close>

definition deferred_mark ::
  "ConditionType \<Rightarrow> string \<Rightarrow> ConditionSeverity \<Rightarrow> Outcome \<Rightarrow> Outcome" where
  "deferred_mark t reason severity r =
     (case r of
        (Some e, s) \<Rightarrow>
          (Some e, s\<lparr>KKInstance := MarkFalse (KKInstance s) t reason severity (Sprintf e [])\<rparr>)
      | (None, s) \<Rightarrow> (None, s\<lparr>KKInstance := MarkTrue (KKInstance s) t\<rparr>))"

definition SetState :: "InstanceState \<Rightarrow> InstanceScope \<Rightarrow> InstanceScope" where
  "SetState st s = s\<lparr>state := st\<rparr>"

definition reconcileDeletingBootstrap :: "World \<Rightarrow> InstanceScope \<Rightarrow> Outcome" where
  "reconcileDeletingBootstrap w s =
     deferred_mark KKInstanceDeletingBootstrapCondition KKInstanceClearEnvironmentFailedReason
       ConditionSeverityWarning
       (let s = SetState InstanceStateCleaning s in
        and_then (call w (KubeadmReset (CRISocket s)) s) (\<lambda>s.
        and_then (call w ResetNetwork s) (\<lambda>s.
        and_then (call w RemoveFiles s) (\<lambda>s.
        and_then (call w DaemonReload s) (\<lambda>s.
        and_then (call w UninstallK3s s) (\<lambda>s.
        (None, s)))))))"

definition reconcileBootstrap :: "Reconciler \<Rightarrow> World \<Rightarrow> InstanceScope \<Rightarrow> Outcome" where
  "reconcileBootstrap r w s =
     deferred_mark KKInstanceBootstrappedCondition KKInstanceInitOSFailedReason
       ConditionSeverityWarning
       (if IsTrue (KKInstance s) KKInstanceBootstrappedCondition then (None, s)
        else
          let s = SetState InstanceStateBootstrapping s in
          and_then (call w AddUsers s) (\<lambda>s.
          and_then (call w SetHostname s) (\<lambda>s.
          and_then (call w CreateDirectory s) (\<lambda>s.
          and_then (call w ResetTmpDirectory s) (\<lambda>s.
          and_then (call w ExecInitScript s) (\<lambda>s.
          (None, s)))))))"

text \<open>
  The second deferred function of the repository phase, registered right after the call
  of \<^verbatim>\<open>MountISO\<close>: it calls \<^verbatim>\<open>UmountISO\<close> and drops its error. It runs before the
  deferred marking, being registered later.
\<close>

definition deferred_umount :: "World \<Rightarrow> Outcome \<Rightarrow> Outcome" where
  "deferred_umount w r = (case r of (err, s) \<Rightarrow> (err, snd (call w UmountISO s)))"

definition reconcileRepository :: "Reconciler \<Rightarrow> World \<Rightarrow> InstanceScope \<Rightarrow> Outcome" where
  "reconcileRepository r w s =
     deferred_mark KKInstanceRepositoryReadyCondition KKInstanceRepositoryFailedReason
       ConditionSeverityWarning
       (if IsTrue (KKInstance s) KKInstanceRepositoryReadyCondition then (None, s)
        else
          and_then (call w Check s) (\<lambda>s.
          and_then (call w (RepositoryGet (WaitKKInstanceTimeout r)) s) (\<lambda>s.
          deferred_umount w
            (and_then (call w MountISO s) (\<lambda>s.
             and_then (call w UpdateAndInstall s) (\<lambda>s.
             (None, s)))))))"

definition reconcileBinaryService :: "Reconciler \<Rightarrow> World \<Rightarrow> InstanceScope \<Rightarrow> Outcome" where
  "reconcileBinaryService r w s =
     deferred_mark KKInstanceBinariesReadyCondition KKInstanceGetBinaryFailedReason
       ConditionSeverityError
       (if IsTrue (KKInstance s) KKInstanceBinariesReadyCondition then (None, s)
        else
          and_then (call w (Download (WaitKKInstanceTimeout r)) s) (\<lambda>s.
          (None, s)))"

definition reconcileContainerManager :: "Reconciler \<Rightarrow> World \<Rightarrow> InstanceScope \<Rightarrow> Outcome" where
  "reconcileContainerManager r w s =
     deferred_mark KKInstanceCRIReadyCondition KKInstanceInstallCRIFailedReason
       ConditionSeverityError
       (if IsTrue (KKInstance s) KKInstanceCRIReadyCondition then (None, s)
        else
          let found = exists_runtime w (calls s);
              s = s\<lparr>calls := calls s @ [IsExist]\<rparr>
          in if found then (None, s)
             else
               and_then (call w (ContainerManagerGet (WaitKKInstanceTimeout r)) s) (\<lambda>s.
               and_then (call w Install s) (\<lambda>s.
               (None, s))))"

text \<open>
  The loop over the provisioning commands; \<^verbatim>\<open>errors.Wrapf\<close> puts its message and a
  colon before the text of the error.
\<close>

fun run_commands :: "World \<Rightarrow> string list \<Rightarrow> InstanceScope \<Rightarrow> Outcome" where
  "run_commands w [] s = (None, s)"
| "run_commands w (c # cs) s =
     (case call w (SudoCmd c) s of
        (Some e, s') \<Rightarrow> (Some (''failed to run cloud config: '' @ e), s')
      | (None, s') \<Rightarrow> run_commands w cs s')"

definition reconcileProvisioning :: "Reconciler \<Rightarrow> World \<Rightarrow> InstanceScope \<Rightarrow> Outcome" where
  "reconcileProvisioning r w s =
     deferred_mark KKInstanceProvisionedCondition KKInstanceRunCloudConfigFailedReason
       ConditionSeverityError
       (if IsTrue (KKInstance s) KKInstanceProvisionedCondition then (None, s)
        else
          case GetRawBootstrapDataWithFormat w of
            Inl e \<Rightarrow>
              (Some e, s\<lparr>events := events s @ [(''Warning'', ''FailedGetBootstrapData'', e)]\<rparr>)
          | Inr (bootstrapData, format) \<Rightarrow>
              (case RawBootstrapDataToProvisioningCommands w format bootstrapData of
                 Inl e \<Rightarrow>
                   (Some (''failed to join a control plane node with kubeadm: '' @ e), s)
               | Inr commands \<Rightarrow> run_commands w commands s))"

type_synonym PhaseFun = "Reconciler \<Rightarrow> World \<Rightarrow> InstanceScope \<Rightarrow> Outcome"

text \<open>
  \<^verbatim>\<open>phaseFactory\<close>: the switch on the distribution of the scope, a string, has the two
  cases and no default, and the list starts nil.
\<close>

definition phaseFactory :: "string \<Rightarrow> PhaseFun list" where
  "phaseFactory distribution =
     (if distribution = KUBERNETES then
        [reconcileBootstrap, reconcileRepository, reconcileBinaryService,
         reconcileContainerManager, reconcileProvisioning]
      else if distribution = K3S then
        [reconcileBootstrap, reconcileRepository, reconcileBinaryService,
         reconcileProvisioning]
      else [])"

text \<open>
  The install phases by name, each with its function, and with the condition, the reason
  code and the severity the specification gives it.
\<close>

datatype Phase = Bootstrap | Repository | BinaryService | ContainerManager | Provisioning

fun reconcile :: "Phase \<Rightarrow> PhaseFun" where
  "reconcile Bootstrap = reconcileBootstrap"
| "reconcile Repository = reconcileRepository"
| "reconcile BinaryService = reconcileBinaryService"
| "reconcile ContainerManager = reconcileContainerManager"
| "reconcile Provisioning = reconcileProvisioning"

fun phase_condition :: "Phase \<Rightarrow> ConditionType" where
  "phase_condition Bootstrap = ''Bootstrapped''"
| "phase_condition Repository = ''RepositoryReady''"
| "phase_condition BinaryService = ''BinariesReady''"
| "phase_condition ContainerManager = ''CRIReady''"
| "phase_condition Provisioning = ''Provisioned''"

fun phase_reason :: "Phase \<Rightarrow> string" where
  "phase_reason Bootstrap = ''InitOSFailed''"
| "phase_reason Repository = ''RepositoryFailed''"
| "phase_reason BinaryService = ''GetBinaryFailed''"
| "phase_reason ContainerManager = ''InstallCRIFailed''"
| "phase_reason Provisioning = ''RunCloudConfigFailed''"

fun phase_severity :: "Phase \<Rightarrow> ConditionSeverity" where
  "phase_severity Bootstrap = ConditionSeverityWarning"
| "phase_severity Repository = ConditionSeverityWarning"
| "phase_severity BinaryService = ConditionSeverityError"
| "phase_severity ContainerManager = ConditionSeverityError"
| "phase_severity Provisioning = ConditionSeverityError"

text \<open>
  A reconcile calls phases one after the other on the same instance scope. Whatever it
  does when a phase fails, the scope it ends with is the one the phases it called leave.
\<close>

fun run_phases ::
  "PhaseFun list \<Rightarrow> Reconciler \<Rightarrow> World \<Rightarrow> InstanceScope \<Rightarrow> InstanceScope" where
  "run_phases [] r w s = s"
| "run_phases (f # fs) r w s = run_phases fs r w (snd (f r w s))"

text \<open>
  A list of calls made in order until one fails, and what it means for such a run to
  stop at its \<open>k\<close>-th call: the calls before it answered nil, the run made exactly the
  first \<open>k\<close> calls and returns the answer of the \<open>k\<close>-th, which is nil only for the last.
\<close>

fun perform :: "World \<Rightarrow> Action list \<Rightarrow> InstanceScope \<Rightarrow> Outcome" where
  "perform w [] s = (None, s)"
| "perform w (a # as) s = and_then (call w a s) (perform w as)"

definition stops_at :: "World \<Rightarrow> Action list \<Rightarrow> InstanceScope \<Rightarrow> nat \<Rightarrow> bool" where
  "stops_at w as s k \<longleftrightarrow>
     1 \<le> k \<and> k \<le> length as \<and>
     snd (perform w as s) = s\<lparr>calls := calls s @ take k as\<rparr> \<and>
     (\<forall>i<k - 1. respond w (calls s @ take i as) (as ! i) = None) \<and>
     fst (perform w as s) = respond w (calls s @ take (k - 1) as) (as ! (k - 1)) \<and>
     (fst (perform w as s) = None \<longrightarrow> k = length as)"

text \<open>The five sub-steps of the deletion phase.\<close>

definition deletion_steps :: "InstanceScope \<Rightarrow> Action list" where
  "deletion_steps s =
     [KubeadmReset (CRISocket s), ResetNetwork, RemoveFiles, DaemonReload, UninstallK3s]"

text \<open>
  The calls of the repository phase, by the first call that fails: none when the
  condition is true already, and \<^verbatim>\<open>UmountISO\<close> last whenever \<^verbatim>\<open>MountISO\<close> was called.
\<close>

definition repository_calls :: "Reconciler \<Rightarrow> World \<Rightarrow> InstanceScope \<Rightarrow> Action list" where
  "repository_calls r w s =
     (let get = RepositoryGet (WaitKKInstanceTimeout r) in
      if IsTrue (KKInstance s) ''RepositoryReady'' then []
      else if respond w (calls s) Check \<noteq> None then [Check]
      else if respond w (calls s @ [Check]) get \<noteq> None then [Check, get]
      else if respond w (calls s @ [Check, get]) MountISO \<noteq> None
        then [Check, get, MountISO, UmountISO]
      else [Check, get, MountISO, UpdateAndInstall, UmountISO])"

text \<open>
  A host for the examples: every call answers nil but the one named, which fails with
  the given text; no container runtime is found; the bootstrap data hold one command.
\<close>

definition failing_world :: "Action \<Rightarrow> string \<Rightarrow> World" where
  "failing_world a e =
     \<lparr>respond = (\<lambda>tr b. if b = a then Some e else None),
      exists_runtime = (\<lambda>tr. False),
      GetRawBootstrapDataWithFormat = Inr (''kubeadm join'', ''cloud-config''),
      RawBootstrapDataToProvisioningCommands = (\<lambda>format bootstrapData. Inr [bootstrapData])\<rparr>"

definition new_scope :: "Conditions \<Rightarrow> InstanceScope" where
  "new_scope cs =
     \<lparr>KKInstance = cs, state = InstanceStatePending,
      CRISocket = ''/run/containerd/containerd.sock'', calls = [], events = []\<rparr>"

definition reconciler_10m :: Reconciler where
  "reconciler_10m = \<lparr>WaitKKInstanceTimeout = 600000000000\<rparr>"

section \<open>Selection of the machine to delete\<close>






definition older :: "Machine \<Rightarrow> Machine \<Rightarrow> bool" where
  "older a b =
     (if CreationTimestamp a = CreationTimestamp b then Name a < Name b
      else CreationTimestamp a < CreationTimestamp b)"

fun Oldest :: "Machines \<Rightarrow> Machine option" where
  "Oldest [] = None"
| "Oldest (m # ms) = Some (fold (\<lambda>x best. if older x best then x else best) ms m)"














section \<open>The entries of the hosts file\<close>

text \<open>
  The host and the runtime as \<^verbatim>\<open>GenerateHosts\<close> reads them through their interfaces,
  and the fields of the cluster configuration it uses; \<^verbatim>\<open>RegistryGetHost\<close> is what the
  method \<^verbatim>\<open>GetHost\<close> of the registry configuration returns.
\<close>

record Host =
  GetName :: string
  GetInternalIPv4Address :: string
  GetInternalIPv6Address :: string

record ModuleRuntime =
  GetAllHosts :: "Host list"
  GetHostsByRole :: "string \<Rightarrow> Host list"

record KubeConf =
  ControlPlaneEndpointAddress :: string
  ControlPlaneEndpointDomain :: string
  ClusterName :: string
  PrivateRegistry :: string
  RegistryGetHost :: string
  NodeEtcHosts :: string

text \<open>
  Modelled from the spec: the role names of package \<^verbatim>\<open>common\<close>, which is not under
  src/, as the data model of the specification lists them.
\<close>

definition Master :: string where "Master = ''master''"
definition Registry :: string where "Registry = ''registry''"

datatype panic = IndexOutOfRange

text \<open>
  \<^verbatim>\<open>strings.TrimSpace\<close> and \<^verbatim>\<open>strings.Split\<close> on bytes. The white space is the ASCII
  one (tab, line feed, vertical tab, form feed, carriage return, space); the white space
  Unicode has beyond ASCII, which Go trims too, is not modelled.
\<close>

definition isSpace :: "char \<Rightarrow> bool" where
  "isSpace c = (c \<in> {CHR 0x09, CHR 0x0A, CHR 0x0B, CHR 0x0C, CHR 0x0D, CHR '' ''})"

definition TrimSpace :: "string \<Rightarrow> string" where
  "TrimSpace s = rev (dropWhile isSpace (rev (dropWhile isSpace s)))"

fun Split :: "string \<Rightarrow> char \<Rightarrow> string list" where
  "Split [] sep = [[]]"
| "Split (c # cs) sep =
     (if c = sep then [] # Split cs sep
      else case Split cs sep of
             [] \<Rightarrow> [[c]]
           | l # ls \<Rightarrow> (c # l) # ls)"

text \<open>The loop over all hosts, appending to the list so far.\<close>

fun append_hosts :: "string \<Rightarrow> Host list \<Rightarrow> string list \<Rightarrow> string list" where
  "append_hosts clusterName [] hostsList = hostsList"
| "append_hosts clusterName (host # hosts) hostsList =
     append_hosts clusterName hosts
       (if GetName host \<noteq> [] then
          let hostsList = hostsList @
                [GetInternalIPv4Address host @ ''  '' @ GetName host @ ''.'' @ clusterName @
                 '' '' @ GetName host]
          in if GetInternalIPv6Address host \<noteq> [] then
               hostsList @
                 [GetInternalIPv6Address host @ ''  '' @ GetName host @ ''.'' @ clusterName @
                  '' '' @ GetName host]
             else hostsList
        else hostsList)"

text \<open>The loop over the lines of the extension.\<close>

fun append_lines :: "string list \<Rightarrow> string list \<Rightarrow> string list" where
  "append_lines [] hostsList = hostsList"
| "append_lines (l # ls) hostsList =
     append_lines ls
       (let line = TrimSpace l in if line \<noteq> [] then hostsList @ [line] else hostsList)"

text \<open>
  \<^verbatim>\<open>GenerateHosts\<close>. The name of the certificate of the registry, a constant of package
  \<^verbatim>\<open>registry\<close> that is not under src/, is a parameter. Indexing the empty list of
  masters panics.
\<close>

definition GenerateHosts :: "string \<Rightarrow> ModuleRuntime \<Rightarrow> KubeConf \<Rightarrow> panic + string list" where
  "GenerateHosts RegistryCertificateBaseName runtime kubeConf =
     (case
        (if ControlPlaneEndpointAddress kubeConf \<noteq> [] then
           Inr (ControlPlaneEndpointAddress kubeConf @ ''  '' @
                ControlPlaneEndpointDomain kubeConf)
         else
           case GetHostsByRole runtime Master of
             [] \<Rightarrow> Inl IndexOutOfRange
           | m # _ \<Rightarrow>
               Inr (GetInternalIPv4Address m @ ''  '' @ ControlPlaneEndpointDomain kubeConf))
      of
        Inl p \<Rightarrow> Inl p
      | Inr lbHost \<Rightarrow>
          let hostsList = append_hosts (ClusterName kubeConf) (GetAllHosts runtime) [];
              hostsList =
                (case GetHostsByRole runtime Registry of
                   [] \<Rightarrow> hostsList
                 | reg # _ \<Rightarrow>
                     let name =
                           (if PrivateRegistry kubeConf \<noteq> [] then RegistryGetHost kubeConf
                            else RegistryCertificateBaseName);
                         hostsList = hostsList @ [GetInternalIPv4Address reg @ ''  '' @ name]
                     in if GetInternalIPv6Address reg \<noteq> [] then
                          hostsList @ [GetInternalIPv6Address reg @ ''  '' @ name]
                        else hostsList);
              nodeEtcHosts = NodeEtcHosts kubeConf;
              hostsList =
                (if length nodeEtcHosts > 0 then
                   append_lines (Split (TrimSpace nodeEtcHosts) (CHR 0x0A)) hostsList
                 else hostsList)
          in Inr (hostsList @ [lbHost]))"

text \<open>
  The order of the result as the claim words it: the entries of a host, those of the
  registry, the lines of the extension, the entry of the control-plane endpoint.
\<close>

definition host_entries :: "string \<Rightarrow> Host \<Rightarrow> string list" where
  "host_entries clusterName host =
     (if GetName host = [] then []
      else (GetInternalIPv4Address host @ ''  '' @ GetName host @ ''.'' @ clusterName @
            '' '' @ GetName host) #
           (if GetInternalIPv6Address host = [] then []
            else [GetInternalIPv6Address host @ ''  '' @ GetName host @ ''.'' @ clusterName @
                  '' '' @ GetName host]))"

definition registry_entries :: "string \<Rightarrow> ModuleRuntime \<Rightarrow> KubeConf \<Rightarrow> string list" where
  "registry_entries RegistryCertificateBaseName runtime kubeConf =
     (case GetHostsByRole runtime Registry of
        [] \<Rightarrow> []
      | reg # _ \<Rightarrow>
          let name = (if PrivateRegistry kubeConf \<noteq> [] then RegistryGetHost kubeConf
                      else RegistryCertificateBaseName)
          in (GetInternalIPv4Address reg @ ''  '' @ name) #
             (if GetInternalIPv6Address reg = [] then []
              else [GetInternalIPv6Address reg @ ''  '' @ name]))"

definition extension_lines :: "KubeConf \<Rightarrow> string list" where
  "extension_lines kubeConf =
     filter (\<lambda>line. line \<noteq> [])
       (map TrimSpace (Split (TrimSpace (NodeEtcHosts kubeConf)) (CHR 0x0A)))"

definition endpoint_entry :: "ModuleRuntime \<Rightarrow> KubeConf \<Rightarrow> string" where
  "endpoint_entry runtime kubeConf =
     (if ControlPlaneEndpointAddress kubeConf \<noteq> [] then ControlPlaneEndpointAddress kubeConf
      else GetInternalIPv4Address (hd (GetHostsByRole runtime Master))) @
     ''  '' @ ControlPlaneEndpointDomain kubeConf"

text \<open>An inventory of one master and a configuration whose extension names it again.\<close>

definition node1 :: Host where
  "node1 =
     \<lparr>GetName = ''node1'', GetInternalIPv4Address = ''10.0.0.1'',
      GetInternalIPv6Address = []\<rparr>"

definition one_master :: ModuleRuntime where
  "one_master =
     \<lparr>GetAllHosts = [node1],
      GetHostsByRole = (\<lambda>role. if role = ''master'' then [node1] else [])\<rparr>"

definition no_master :: ModuleRuntime where
  "no_master = \<lparr>GetAllHosts = [], GetHostsByRole = (\<lambda>role. [])\<rparr>"

definition conf_lb :: "string \<Rightarrow> string \<Rightarrow> KubeConf" where
  "conf_lb address extension =
     \<lparr>ControlPlaneEndpointAddress = address, ControlPlaneEndpointDomain = ''lb.kubesphere.local'',
      ClusterName = ''cluster.local'', PrivateRegistry = [], RegistryGetHost = [],
      NodeEtcHosts = extension\<rparr>"

section \<open>Properties of the aggregation\<close>

lemma Insert_not_Nil [simp]: "Insert s x \<noteq> []"
  by (auto simp: Insert_def)

lemma group_condition_empty:
  "kcpMachinesWithErrors (group_condition n c g) = [] \<longleftrightarrow>
     kcpMachinesWithErrors g = [] \<and> \<not> is_error c"
  "kcpMachinesWithWarnings (group_condition n c g) = [] \<longleftrightarrow>
     kcpMachinesWithWarnings g = [] \<and> \<not> is_warning c"
  "kcpMachinesWithTrue (group_condition n c g) = [] \<longleftrightarrow>
     kcpMachinesWithTrue g = [] \<and> Status c \<noteq> ConditionTrue"
  "kcpMachinesWithUnknown (group_condition n c g) = [] \<longleftrightarrow>
     kcpMachinesWithUnknown g = [] \<and> Status c \<noteq> ConditionUnknown"
  by (simp_all add: group_condition_def is_error_def is_warning_def
      split: ConditionStatus.split ConditionSeverity.split)

lemma group_machine_empty:
  "kcpMachinesWithErrors (group_machine m ts g) = [] \<longleftrightarrow>
     kcpMachinesWithErrors g = [] \<and> (\<forall>c \<in> set (machine_reported m ts). \<not> is_error c)"
  "kcpMachinesWithWarnings (group_machine m ts g) = [] \<longleftrightarrow>
     kcpMachinesWithWarnings g = [] \<and> (\<forall>c \<in> set (machine_reported m ts). \<not> is_warning c)"
  "kcpMachinesWithTrue (group_machine m ts g) = [] \<longleftrightarrow>
     kcpMachinesWithTrue g = [] \<and>
     (\<forall>c \<in> set (machine_reported m ts). Status c \<noteq> ConditionTrue)"
  "kcpMachinesWithUnknown (group_machine m ts g) = [] \<longleftrightarrow>
     kcpMachinesWithUnknown g = [] \<and>
     (\<forall>c \<in> set (machine_reported m ts). Status c \<noteq> ConditionUnknown)"
  by (induction ts arbitrary: g;
      auto simp: group_condition_empty machine_reported_def List.map_filter_simps
           split: option.splits)+

lemma reported_Cons:
  "set (reported (m # ms) ts) = set (machine_reported m ts) \<union> set (reported ms ts)"
  by (simp add: reported_def)

lemma group_machines_empty:
  "kcpMachinesWithErrors (group_machines ms ts g) = [] \<longleftrightarrow>
     kcpMachinesWithErrors g = [] \<and> (\<forall>c \<in> set (reported ms ts). \<not> is_error c)"
  "kcpMachinesWithWarnings (group_machines ms ts g) = [] \<longleftrightarrow>
     kcpMachinesWithWarnings g = [] \<and> (\<forall>c \<in> set (reported ms ts). \<not> is_warning c)"
  "kcpMachinesWithTrue (group_machines ms ts g) = [] \<longleftrightarrow>
     kcpMachinesWithTrue g = [] \<and> (\<forall>c \<in> set (reported ms ts). Status c \<noteq> ConditionTrue)"
  "kcpMachinesWithUnknown (group_machines ms ts g) = [] \<longleftrightarrow>
     kcpMachinesWithUnknown g = [] \<and>
     (\<forall>c \<in> set (reported ms ts). Status c \<noteq> ConditionUnknown)"
proof (induction ms arbitrary: g)
  case Nil
  {
    case 1 show ?case by (simp add: reported_def)
  next
    case 2 show ?case by (simp add: reported_def)
  next
    case 3 show ?case by (simp add: reported_def)
  next
    case 4 show ?case by (simp add: reported_def)
  }
next
  case (Cons m ms)
  {
    case 1 show ?case by (auto simp: Cons.IH(1) group_machine_empty(1) reported_Cons)
  next
    case 2 show ?case by (auto simp: Cons.IH(2) group_machine_empty(2) reported_Cons)
  next
    case 3 show ?case by (auto simp: Cons.IH(3) group_machine_empty(3) reported_Cons)
  next
    case 4 show ?case by (auto simp: Cons.IH(4) group_machine_empty(4) reported_Cons)
  }
qed

lemma groups_of_input:
  fixes input
  defines "g \<equiv> group_machines (OwnedMachines (controlPlane input)) (machineConditions input)
                  no_groups"
  shows "kcpMachinesWithErrors g = [] \<longleftrightarrow>
           (\<forall>c \<in> set (input_reported input). \<not> is_error c)"
    and "kcpMachinesWithWarnings g = [] \<longleftrightarrow>
           (\<forall>c \<in> set (input_reported input). \<not> is_warning c)"
    and "kcpMachinesWithTrue g = [] \<longleftrightarrow>
           (\<forall>c \<in> set (input_reported input). Status c \<noteq> ConditionTrue)"
    and "kcpMachinesWithUnknown g = [] \<longleftrightarrow>
           (\<forall>c \<in> set (input_reported input). Status c \<noteq> ConditionUnknown)"
  by (simp_all add: g_def group_machines_empty input_reported_def no_groups_def)

lemma aggregate_error:
  assumes "kcpErrors input \<noteq> [] \<or> (\<exists>c \<in> set (input_reported input). is_error c)"
  shows "\<exists>m. aggregateFromMachinesToKCP input =
           MarkFalse (KCP (controlPlane input)) (condition input) (unhealthyReason input)
             ConditionSeverityError m"
  using assms groups_of_input(1)[of input]
  by (auto simp: aggregateFromMachinesToKCP_def Let_def)

lemma aggregate_warning:
  assumes "kcpErrors input = []" "\<forall>c \<in> set (input_reported input). \<not> is_error c"
    "\<exists>c \<in> set (input_reported input). is_warning c"
  shows "\<exists>m. aggregateFromMachinesToKCP input =
           MarkFalse (KCP (controlPlane input)) (condition input) (unhealthyReason input)
             ConditionSeverityWarning m"
  using assms groups_of_input(1,2)[of input]
  by (auto simp: aggregateFromMachinesToKCP_def Let_def)

lemma aggregate_no_error_no_warning:
  assumes "kcpErrors input = []"
    "\<forall>c \<in> set (input_reported input). \<not> is_error c \<and> \<not> is_warning c"
  shows "aggregateFromMachinesToKCP input =
     (if \<exists>c \<in> set (input_reported input). Status c = ConditionTrue then
        MarkTrue (KCP (controlPlane input)) (condition input)
      else if \<exists>c \<in> set (input_reported input). Status c = ConditionUnknown then
        MarkUnknown (KCP (controlPlane input)) (condition input) (unknownReason input)
          (Sprintf ''Following machines are reporting unknown %s status: %s''
             [note_text input,
              Join (List_sorted (kcpMachinesWithUnknown
                (group_machines (OwnedMachines (controlPlane input)) (machineConditions input)
                   no_groups))) '', ''])
      else KCP (controlPlane input))"
  using assms groups_of_input[of input]
  by (auto simp: aggregateFromMachinesToKCP_def Let_def)

lemma input_reported_one [simp]:
  "input_reported (agent_input [machine_with n c] errs) = [c]"
  by (simp add: input_reported_def agent_input_def reported_def machine_reported_def
      machine_with_def List.map_filter_simps Get_def)

lemma input_reported_two [simp]:
  "input_reported (agent_input [machine_with n c, machine_with n' c'] errs) = [c, c']"
  by (simp add: input_reported_def agent_input_def reported_def machine_reported_def
      machine_with_def List.map_filter_simps Get_def)

lemma agent_input_fields [simp]:
  "kcpErrors (agent_input ms errs) = errs"
  "KCP (controlPlane (agent_input ms errs)) = Map.empty"
  "condition (agent_input ms errs) = ''ControlPlaneComponentsHealthy''"
  "unhealthyReason (agent_input ms errs) = ''ControlPlaneComponentsUnhealthy''"
  "unknownReason (agent_input ms errs) = ''ControlPlaneComponentsUnknown''"
  by (simp_all add: agent_input_def)

section \<open>Properties of the phases\<close>

lemmas condition_names =
  KKInstanceBootstrappedCondition_def KKInstanceRepositoryReadyCondition_def
  KKInstanceBinariesReadyCondition_def KKInstanceCRIReadyCondition_def
  KKInstanceProvisionedCondition_def KKInstanceDeletingBootstrapCondition_def

lemmas reason_names =
  KKInstanceInitOSFailedReason_def KKInstanceRepositoryFailedReason_def
  KKInstanceGetBinaryFailedReason_def KKInstanceInstallCRIFailedReason_def
  KKInstanceRunCloudConfigFailedReason_def KKInstanceClearEnvironmentFailedReason_def

lemmas reconcile_defs =
  reconcileBootstrap_def reconcileRepository_def reconcileBinaryService_def
  reconcileContainerManager_def reconcileProvisioning_def

text \<open>What a phase body leaves alone: the conditions of the instance.\<close>

lemma call_KKInstance [simp]: "KKInstance (snd (call w a s)) = KKInstance s"
  by (simp add: call_def)

lemma and_then_KKInstance:
  assumes "KKInstance (snd r) = cs"
    and "\<And>s'. KKInstance s' = cs \<Longrightarrow> KKInstance (snd (k s')) = cs"
  shows "KKInstance (snd (and_then r k)) = cs"
  using assms by (cases r) (auto simp: and_then_def split: option.splits)

lemma run_commands_KKInstance [simp]: "KKInstance (snd (run_commands w cs s)) = KKInstance s"
proof (induction cs arbitrary: s)
  case Nil
  show ?case by simp
next
  case (Cons c cs)
  show ?case
  proof (cases "call w (SudoCmd c) s")
    case (Pair e s')
    then have "KKInstance s' = KKInstance s"
      using call_KKInstance[of w "SudoCmd c" s] by simp
    with Pair Cons.IH[of s'] show ?thesis
      by (cases e) simp_all
  qed
qed

lemma deferred_mark_result:
  "fst (deferred_mark t reason sev r) = fst r"
  "KKInstance (snd (deferred_mark t reason sev r)) =
     (case fst r of
        Some e \<Rightarrow> MarkFalse (KKInstance (snd r)) t reason sev (Sprintf e [])
      | None \<Rightarrow> MarkTrue (KKInstance (snd r)) t)"
  "calls (snd (deferred_mark t reason sev r)) = calls (snd r)"
  "state (snd (deferred_mark t reason sev r)) = state (snd r)"
  "events (snd (deferred_mark t reason sev r)) = events (snd r)"
  by (cases r; cases "fst r"; simp add: deferred_mark_def)+

lemma deferred_mark_cond:
  assumes "KKInstance (snd body) = KKInstance s"
  shows "KKInstance (snd (deferred_mark t reason sev body)) =
     (case fst (deferred_mark t reason sev body) of
        Some e \<Rightarrow> MarkFalse (KKInstance s) t reason sev (Sprintf e [])
      | None \<Rightarrow> MarkTrue (KKInstance s) t)"
  using assms by (simp add: deferred_mark_result cong: option.case_cong)

lemma deferred_umount_KKInstance:
  "KKInstance (snd r) = cs \<Longrightarrow> KKInstance (snd (deferred_umount w r)) = cs"
  by (cases r) (simp add: deferred_umount_def)

lemma reconcileBootstrap_KKInstance:
  "KKInstance (snd (reconcileBootstrap r w s)) =
     (case fst (reconcileBootstrap r w s) of
        Some e \<Rightarrow> MarkFalse (KKInstance s) ''Bootstrapped'' ''InitOSFailed''
                    ConditionSeverityWarning (Sprintf e [])
      | None \<Rightarrow> MarkTrue (KKInstance s) ''Bootstrapped'')"
  unfolding reconcileBootstrap_def KKInstanceBootstrappedCondition_def
    KKInstanceInitOSFailedReason_def
  by (rule deferred_mark_cond) (auto intro!: and_then_KKInstance simp: Let_def SetState_def)

lemma reconcileRepository_KKInstance:
  "KKInstance (snd (reconcileRepository r w s)) =
     (case fst (reconcileRepository r w s) of
        Some e \<Rightarrow> MarkFalse (KKInstance s) ''RepositoryReady'' ''RepositoryFailed''
                    ConditionSeverityWarning (Sprintf e [])
      | None \<Rightarrow> MarkTrue (KKInstance s) ''RepositoryReady'')"
  unfolding reconcileRepository_def KKInstanceRepositoryReadyCondition_def
    KKInstanceRepositoryFailedReason_def
  by (rule deferred_mark_cond)
     (auto intro!: and_then_KKInstance deferred_umount_KKInstance)

lemma reconcileBinaryService_KKInstance:
  "KKInstance (snd (reconcileBinaryService r w s)) =
     (case fst (reconcileBinaryService r w s) of
        Some e \<Rightarrow> MarkFalse (KKInstance s) ''BinariesReady'' ''GetBinaryFailed''
                    ConditionSeverityError (Sprintf e [])
      | None \<Rightarrow> MarkTrue (KKInstance s) ''BinariesReady'')"
  unfolding reconcileBinaryService_def KKInstanceBinariesReadyCondition_def
    KKInstanceGetBinaryFailedReason_def
  by (rule deferred_mark_cond) (auto intro!: and_then_KKInstance)

lemma reconcileContainerManager_KKInstance:
  "KKInstance (snd (reconcileContainerManager r w s)) =
     (case fst (reconcileContainerManager r w s) of
        Some e \<Rightarrow> MarkFalse (KKInstance s) ''CRIReady'' ''InstallCRIFailed''
                    ConditionSeverityError (Sprintf e [])
      | None \<Rightarrow> MarkTrue (KKInstance s) ''CRIReady'')"
  unfolding reconcileContainerManager_def KKInstanceCRIReadyCondition_def
    KKInstanceInstallCRIFailedReason_def
  by (rule deferred_mark_cond) (auto intro!: and_then_KKInstance simp: Let_def)

lemma reconcileProvisioning_KKInstance:
  "KKInstance (snd (reconcileProvisioning r w s)) =
     (case fst (reconcileProvisioning r w s) of
        Some e \<Rightarrow> MarkFalse (KKInstance s) ''Provisioned'' ''RunCloudConfigFailed''
                    ConditionSeverityError (Sprintf e [])
      | None \<Rightarrow> MarkTrue (KKInstance s) ''Provisioned'')"
  unfolding reconcileProvisioning_def KKInstanceProvisionedCondition_def
    KKInstanceRunCloudConfigFailedReason_def
  by (rule deferred_mark_cond) (auto split: sum.splits)

lemma reconcile_KKInstance:
  "KKInstance (snd (reconcile P r w s)) =
     (case fst (reconcile P r w s) of
        Some e \<Rightarrow> MarkFalse (KKInstance s) (phase_condition P) (phase_reason P)
                    (phase_severity P) (Sprintf e [])
      | None \<Rightarrow> MarkTrue (KKInstance s) (phase_condition P))"
  by (cases P)
     (simp_all add: reconcileBootstrap_KKInstance reconcileRepository_KKInstance
        reconcileBinaryService_KKInstance reconcileContainerManager_KKInstance
        reconcileProvisioning_KKInstance cong: option.case_cong)

lemma reconcile_when_true:
  assumes "IsTrue (KKInstance s) (phase_condition P)"
  shows "reconcile P r w s = (None, s\<lparr>KKInstance := MarkTrue (KKInstance s) (phase_condition P)\<rparr>)"
  using assms
  by (cases P) (simp_all add: reconcile_defs deferred_mark_def condition_names)

lemma IsTrue_MarkTrue: "IsTrue (MarkTrue cs t) t' \<longleftrightarrow> t' = t \<or> IsTrue cs t'"
  by (simp add: IsTrue_def MarkTrue_def Get_def TrueCondition_def)

lemma IsTrue_MarkFalse: "IsTrue (MarkFalse cs t reason sev m) t' \<longleftrightarrow> t' \<noteq> t \<and> IsTrue cs t'"
  by (simp add: IsTrue_def MarkFalse_def Get_def FalseCondition_def)

lemma reconcile_keeps_true:
  assumes "IsTrue (KKInstance s) t"
  shows "IsTrue (KKInstance (snd (reconcile Q r w s))) t"
proof (cases "t = phase_condition Q")
  case True
  with assms show ?thesis
    by (simp add: reconcile_when_true IsTrue_MarkTrue)
next
  case False
  with assms show ?thesis
    by (simp add: reconcile_KKInstance IsTrue_MarkTrue IsTrue_MarkFalse split: option.split)
qed

lemma run_phases_keeps_true:
  "IsTrue (KKInstance s) t \<Longrightarrow> IsTrue (KKInstance (run_phases (map reconcile ps) r w s)) t"
  by (induction ps arbitrary: s) (simp_all add: reconcile_keeps_true)

lemma and_then_None [simp]: "and_then (None, s) k = k s"
  by (simp add: and_then_def)

lemma and_then_Some [simp]: "and_then (Some e, s) k = (Some e, s)"
  by (simp add: and_then_def)

lemma perform_fail:
  "respond w (calls s) a = Some e \<Longrightarrow> perform w (a # as) s = (Some e, s\<lparr>calls := calls s @ [a]\<rparr>)"
  by (simp add: call_def)

lemma perform_ok:
  "respond w (calls s) a = None \<Longrightarrow> perform w (a # as) s = perform w as (s\<lparr>calls := calls s @ [a]\<rparr>)"
  by (simp add: call_def)

lemma stops_at_fail:
  assumes "respond w (calls s) a = Some e"
  shows "stops_at w (a # as) s 1"
  unfolding stops_at_def perform_fail[OF assms] using assms by simp

lemma stops_at_last:
  assumes "respond w (calls s) a = None"
  shows "stops_at w [a] s 1"
  unfolding stops_at_def perform_ok[OF assms] using assms by simp

lemma stops_at_step:
  assumes "respond w (calls s) a = None"
    and "stops_at w as (s\<lparr>calls := calls s @ [a]\<rparr>) k"
  shows "stops_at w (a # as) s (Suc k)"
proof -
  let ?s = "s\<lparr>calls := calls s @ [a]\<rparr>"
  from assms(2) have k: "1 \<le> k" "k \<le> length as"
    "snd (perform w as ?s) = ?s\<lparr>calls := calls ?s @ take k as\<rparr>"
    "\<forall>i<k - 1. respond w (calls ?s @ take i as) (as ! i) = None"
    "fst (perform w as ?s) = respond w (calls ?s @ take (k - 1) as) (as ! (k - 1))"
    "fst (perform w as ?s) = None \<longrightarrow> k = length as"
    unfolding stops_at_def by blast+
  from k(1) obtain j where j: "k = Suc j" by (cases k) auto
  have all: "\<forall>i<Suc k - 1. respond w (calls s @ take i (a # as)) ((a # as) ! i) = None"
  proof (intro allI impI)
    fix i assume i: "i < Suc k - 1"
    show "respond w (calls s @ take i (a # as)) ((a # as) ! i) = None"
    proof (cases i)
      case 0
      with assms(1) show ?thesis by simp
    next
      case (Suc i')
      with i have "i' < k - 1" by simp
      with k(4) have "respond w (calls ?s @ take i' as) (as ! i') = None" by blast
      with Suc show ?thesis by simp
    qed
  qed
  have 3: "snd (perform w (a # as) s) = s\<lparr>calls := calls s @ take (Suc k) (a # as)\<rparr>"
    unfolding perform_ok[OF assms(1)] k(3) by simp
  have 5: "fst (perform w (a # as) s) =
      respond w (calls s @ take (Suc k - 1) (a # as)) ((a # as) ! (Suc k - 1))"
    unfolding perform_ok[OF assms(1)] k(5) j by simp
  have 6: "fst (perform w (a # as) s) = None \<longrightarrow> Suc k = length (a # as)"
    unfolding perform_ok[OF assms(1)] using k(6) by simp
  show ?thesis
    unfolding stops_at_def using k(1,2) all 3 5 6 by simp
qed

lemma perform_stops:
  "as \<noteq> [] \<Longrightarrow> \<exists>k. stops_at w as s k"
proof (induction as arbitrary: s)
  case Nil
  then show ?case by simp
next
  case (Cons a as)
  show ?case
  proof (cases "respond w (calls s) a")
    case (Some e)
    then show ?thesis using stops_at_fail by blast
  next
    case None
    show ?thesis
    proof (cases "as = []")
      case True
      with None show ?thesis using stops_at_last by blast
    next
      case False
      from Cons.IH[OF False] obtain k where "stops_at w as (s\<lparr>calls := calls s @ [a]\<rparr>) k"
        by blast
      with None show ?thesis using stops_at_step by blast
    qed
  qed
qed

lemma perform_Cons_fun: "perform w (a # as) = (\<lambda>s. and_then (call w a s) (perform w as))"
  by (rule ext) simp

lemma perform_Nil_fun: "perform w [] = Pair None"
  by (rule ext) simp

lemma reconcileDeletingBootstrap_perform:
  "reconcileDeletingBootstrap w s =
     deferred_mark ''DeletingBootstrap'' ''ClearEnvironmentFailed''
       ConditionSeverityWarning
       (perform w (deletion_steps s) (SetState InstanceStateCleaning s))"
  by (simp add: reconcileDeletingBootstrap_def deletion_steps_def Let_def SetState_def
      perform_Cons_fun perform_Nil_fun KKInstanceDeletingBootstrapCondition_def
      KKInstanceClearEnvironmentFailedReason_def del: perform.simps)

lemma stops_atD:
  assumes "stops_at w as s k"
  shows "1 \<le> k" "k \<le> length as"
    "snd (perform w as s) = s\<lparr>calls := calls s @ take k as\<rparr>"
    "\<forall>i<k - 1. respond w (calls s @ take i as) (as ! i) = None"
    "fst (perform w as s) = respond w (calls s @ take (k - 1) as) (as ! (k - 1))"
    "fst (perform w as s) = None \<longrightarrow> k = length as"
  using assms unfolding stops_at_def by blast+


lemma repository_body:
  assumes nt: "\<not> IsTrue (KKInstance s) ''RepositoryReady''"
  shows "calls (snd (reconcileRepository r w s)) = calls s @ repository_calls r w s"
proof -
  let ?get = "RepositoryGet (WaitKKInstanceTimeout r)"
  note defs = reconcileRepository_def repository_calls_def deferred_mark_result
      KKInstanceRepositoryReadyCondition_def call_def deferred_umount_def Let_def
  show ?thesis
  proof (cases "respond w (calls s) Check")
    case (Some e)
    with nt show ?thesis by (simp add: defs)
  next
    case c1: None
    show ?thesis
    proof (cases "respond w (calls s @ [Check]) ?get")
      case (Some e)
      with nt c1 show ?thesis by (simp add: defs)
    next
      case c2: None
      show ?thesis
      proof (cases "respond w (calls s @ [Check, ?get]) MountISO")
        case (Some e)
        with nt c1 c2 show ?thesis by (simp add: defs)
      next
        case c3: None
        show ?thesis
        proof (cases "respond w (calls s @ [Check, ?get, MountISO]) UpdateAndInstall")
          case (Some e)
          with nt c1 c2 c3 show ?thesis by (simp add: defs)
        next
          case None
          with nt c1 c2 c3 show ?thesis by (simp add: defs)
        qed
      qed
    qed
  qed
qed

lemma repository_calls_ok:
  "calls (snd (reconcileRepository r w s)) = calls s @ repository_calls r w s"
proof (cases "IsTrue (KKInstance s) ''RepositoryReady''")
  case True
  then show ?thesis
    by (simp add: reconcileRepository_def repository_calls_def deferred_mark_result
      KKInstanceRepositoryReadyCondition_def)
next
  case False
  then show ?thesis by (rule repository_body)
qed

lemma repository_calls_shape:
  "MountISO \<in> set (repository_calls r w s) \<Longrightarrow>
     repository_calls r w s =
       [Check, RepositoryGet (WaitKKInstanceTimeout r), MountISO, UmountISO] \<or>
     repository_calls r w s =
       [Check, RepositoryGet (WaitKKInstanceTimeout r), MountISO, UpdateAndInstall, UmountISO]"
  by (simp add: repository_calls_def Let_def split: if_splits)

lemma repository_calls_no_mount:
  "respond w (calls s) Check \<noteq> None \<or>
   respond w (calls s @ [Check]) (RepositoryGet (WaitKKInstanceTimeout r)) \<noteq> None \<Longrightarrow>
   MountISO \<notin> set (repository_calls r w s) \<and> UmountISO \<notin> set (repository_calls r w s)"
  by (auto simp: repository_calls_def Let_def)

lemma repository_mount_fails:
  "reconcileRepository reconciler_10m (failing_world MountISO ''no iso'') (new_scope Map.empty) =
     (Some ''no iso'',
      \<lparr>KKInstance = [''RepositoryReady'' \<mapsto>
         FalseCondition ''RepositoryFailed'' ConditionSeverityWarning (Sprintf ''no iso'' [])],
       state = InstanceStatePending, CRISocket = ''/run/containerd/containerd.sock'',
       calls = [Check, RepositoryGet 600000000000, MountISO, UmountISO], events = []\<rparr>)"
  by (simp add: reconcileRepository_def failing_world_def new_scope_def reconciler_10m_def
        IsTrue_def Get_def call_def deferred_mark_def deferred_umount_def MarkFalse_def
        KKInstanceRepositoryReadyCondition_def KKInstanceRepositoryFailedReason_def)

lemma MarkTrue_other: "t' \<noteq> t \<Longrightarrow> MarkTrue cs t t' = cs t'"
  by (simp add: MarkTrue_def)

lemma MarkFalse_other: "t' \<noteq> t \<Longrightarrow> MarkFalse cs t reason sev m t' = cs t'"
  by (simp add: MarkFalse_def)

lemma reconcile_other_condition:
  assumes "t \<noteq> phase_condition P"
  shows "KKInstance (snd (reconcile P r w s)) t = KKInstance s t"
  using assms
  by (simp add: reconcile_KKInstance MarkTrue_other MarkFalse_other split: option.split)

lemma K3S_phases_keep_CRIReady:
  assumes "f \<in> set (phaseFactory K3S)"
  shows "KKInstance (snd (f r w s)) ''CRIReady'' = KKInstance s ''CRIReady''"
proof -
  from assms have "f = reconcile Bootstrap \<or> f = reconcile Repository \<or>
      f = reconcile BinaryService \<or> f = reconcile Provisioning"
    by (auto simp: phaseFactory_def K3S_def KUBERNETES_def)
  then show ?thesis
    by (elim disjE) (simp_all only: reconcile_other_condition phase_condition.simps
        list.inject char.inject simp_thms not_False_eq_True)
qed

lemma run_K3S_phases_keep_CRIReady:
  "set fs \<subseteq> set (phaseFactory K3S) \<Longrightarrow>
   KKInstance (run_phases fs r w s) ''CRIReady'' = KKInstance s ''CRIReady''"
  by (induction fs arbitrary: s) (simp_all add: K3S_phases_keep_CRIReady)

section \<open>Properties of the hosts file\<close>

lemma append_hosts_eq:
  "append_hosts cn hosts acc = acc @ concat (map (host_entries cn) hosts)"
  by (induction hosts arbitrary: acc) (simp_all add: host_entries_def Let_def)

lemma append_lines_eq:
  "append_lines ls acc = acc @ filter (\<lambda>line. line \<noteq> []) (map TrimSpace ls)"
  by (induction ls arbitrary: acc) (simp_all add: Let_def)

lemma extension_lines_empty:
  "NodeEtcHosts kubeConf = [] \<Longrightarrow> extension_lines kubeConf = []"
  by (simp add: extension_lines_def TrimSpace_def)

lemma GenerateHosts_eq:
  "GenerateHosts base runtime kubeConf =
     (if ControlPlaneEndpointAddress kubeConf = [] \<and> GetHostsByRole runtime Master = []
      then Inl IndexOutOfRange
      else Inr (concat (map (host_entries (ClusterName kubeConf)) (GetAllHosts runtime)) @
                registry_entries base runtime kubeConf @
                extension_lines kubeConf @
                [endpoint_entry runtime kubeConf]))"
proof (cases "NodeEtcHosts kubeConf = []")
  case True
  then show ?thesis
    by (simp add: GenerateHosts_def append_hosts_eq append_lines_eq registry_entries_def
        extension_lines_empty endpoint_entry_def Let_def split: list.split)
next
  case False
  then show ?thesis
    by (simp add: GenerateHosts_def append_hosts_eq append_lines_eq registry_entries_def
        extension_lines_def endpoint_entry_def Let_def split: list.split)
qed


section \<open>Properties of the selection\<close>

lemma older_irrefl [simp]: "\<not> older a a"
  by (simp add: older_def)




lemma Oldest_None [simp]: "Oldest ms = None \<longleftrightarrow> ms = []"
  by (cases ms) simp_all




















section \<open>The deletion phase\<close>

text \<open>
  Claim C5. On a deletion request the state of the host is set to Cleaning and the deletion
  phase makes its five calls in order (reset of the cluster agent with the CRI socket,
  reset of the network, removal of the files, reload of the service manager, uninstall
  of K3s), stopping at the first that fails: it makes the first \<open>k\<close> of them, the ones
  before the \<open>k\<close>-th answered nil, the error it returns is the answer of the \<open>k\<close>-th, and
  when that is nil all five were made. The condition DeletingBootstrap is marked true
  when the phase returns nil, and false with reason ClearEnvironmentFailed, severity
  Warning and the text of the error otherwise; so it is true exactly when all five
  calls succeeded.
\<close>

theorem deletion_phase:
  assumes "reconcileDeletingBootstrap w s = (err, s')"
  shows "state s' = InstanceStateCleaning \<and>
    (\<exists>k. 1 \<le> k \<and> k \<le> 5 \<and> calls s' = calls s @ take k (deletion_steps s) \<and>
       (\<forall>i<k - 1. respond w (calls s @ take i (deletion_steps s)) (deletion_steps s ! i) = None) \<and>
       err = respond w (calls s @ take (k - 1) (deletion_steps s)) (deletion_steps s ! (k - 1)) \<and>
       (err = None \<longrightarrow> k = 5)) \<and>
    KKInstance s' =
      (case err of
         None \<Rightarrow> MarkTrue (KKInstance s) ''DeletingBootstrap''
       | Some e \<Rightarrow> MarkFalse (KKInstance s) ''DeletingBootstrap'' ''ClearEnvironmentFailed''
                     ConditionSeverityWarning (Sprintf e [])) \<and>
    (IsTrue (KKInstance s') ''DeletingBootstrap'' \<longleftrightarrow> err = None)"
proof -
  let ?s = "SetState InstanceStateCleaning s"
  let ?steps = "deletion_steps s"
  let ?p = "perform w ?steps ?s"
  have len: "length ?steps = 5" by (simp add: deletion_steps_def)
  have "?steps \<noteq> []" by (simp add: deletion_steps_def)
  from perform_stops[OF this, of w ?s] obtain k where "stops_at w ?steps ?s k" ..
  note k = stops_atD[OF this, unfolded len]
  have cs: "calls ?s = calls s" "KKInstance ?s = KKInstance s" "state ?s = InstanceStateCleaning"
    by (simp_all add: SetState_def)
  have res: "(err, s') = deferred_mark ''DeletingBootstrap'' ''ClearEnvironmentFailed''
       ConditionSeverityWarning ?p"
    unfolding assms[symmetric] by (rule reconcileDeletingBootstrap_perform)
  have err: "err = fst ?p"
    using arg_cong[OF res, of fst] by (simp add: deferred_mark_result)
  have s': "calls s' = calls (snd ?p)" "state s' = state (snd ?p)"
    using arg_cong[OF res, of snd] by (simp_all add: deferred_mark_result)
  have a: "state s' = InstanceStateCleaning"
    unfolding s' k(3) by (simp add: cs)
  have b1: "calls s' = calls s @ take k ?steps"
    unfolding s' k(3) by (simp add: cs)
  have b2: "\<forall>i<k - 1. respond w (calls s @ take i ?steps) (?steps ! i) = None"
    using k(4) unfolding cs .
  have b3: "err = respond w (calls s @ take (k - 1) ?steps) (?steps ! (k - 1))"
    unfolding err using k(5) unfolding cs .
  have b4: "err = None \<longrightarrow> k = 5"
    unfolding err using k(6) .
  have b: "\<exists>k. 1 \<le> k \<and> k \<le> 5 \<and> calls s' = calls s @ take k ?steps \<and>
       (\<forall>i<k - 1. respond w (calls s @ take i ?steps) (?steps ! i) = None) \<and>
       err = respond w (calls s @ take (k - 1) ?steps) (?steps ! (k - 1)) \<and>
       (err = None \<longrightarrow> k = 5)"
    by (intro exI[of _ k] conjI k(1) k(2) b1 b2 b3 b4)
  have "KKInstance (snd ?p) = KKInstance s"
    unfolding k(3) by (simp add: cs)
  from deferred_mark_cond[OF this, of "''DeletingBootstrap''" "''ClearEnvironmentFailed''"
      ConditionSeverityWarning]
  have c: "KKInstance s' =
      (case err of
         None \<Rightarrow> MarkTrue (KKInstance s) ''DeletingBootstrap''
       | Some e \<Rightarrow> MarkFalse (KKInstance s) ''DeletingBootstrap'' ''ClearEnvironmentFailed''
                     ConditionSeverityWarning (Sprintf e []))"
    unfolding res[symmetric] by simp
  have d: "IsTrue (KKInstance s') ''DeletingBootstrap'' \<longleftrightarrow> err = None"
    unfolding c by (cases err) (simp_all add: IsTrue_MarkTrue IsTrue_MarkFalse)
  from a b c d show ?thesis by (intro conjI)
qed

theorem deletion_phase_witness:
  "reconcileDeletingBootstrap (failing_world RemoveFiles ''rm: busy'') (new_scope Map.empty) =
     (Some ''rm: busy'',
      \<lparr>KKInstance = [''DeletingBootstrap'' \<mapsto>
         FalseCondition ''ClearEnvironmentFailed'' ConditionSeverityWarning
           (Sprintf ''rm: busy'' [])],
       state = InstanceStateCleaning, CRISocket = ''/run/containerd/containerd.sock'',
       calls = [KubeadmReset ''/run/containerd/containerd.sock'', ResetNetwork, RemoveFiles],
       events = []\<rparr>) \<and>
   \<not> IsTrue [''DeletingBootstrap'' \<mapsto>
         FalseCondition ''ClearEnvironmentFailed'' ConditionSeverityWarning
           (Sprintf ''rm: busy'' [])] ''DeletingBootstrap''"
proof -
  have h: "reconcileDeletingBootstrap (failing_world RemoveFiles ''rm: busy'')
      (new_scope Map.empty) =
     (Some ''rm: busy'',
      \<lparr>KKInstance = [''DeletingBootstrap'' \<mapsto>
         FalseCondition ''ClearEnvironmentFailed'' ConditionSeverityWarning
           (Sprintf ''rm: busy'' [])],
       state = InstanceStateCleaning, CRISocket = ''/run/containerd/containerd.sock'',
       calls = [KubeadmReset ''/run/containerd/containerd.sock'', ResetNetwork, RemoveFiles],
       events = []\<rparr>)"
    by (simp add: reconcileDeletingBootstrap_def failing_world_def new_scope_def
        SetState_def call_def deferred_mark_def MarkFalse_def
        KKInstanceDeletingBootstrapCondition_def KKInstanceClearEnvironmentFailedReason_def)
  from deletion_phase[OF h, THEN conjunct2, THEN conjunct2, THEN conjunct2]
  have "\<not> IsTrue [''DeletingBootstrap'' \<mapsto>
         FalseCondition ''ClearEnvironmentFailed'' ConditionSeverityWarning
           (Sprintf ''rm: busy'' [])] ''DeletingBootstrap''"
    by simp
  with h show ?thesis by (intro conjI)
qed

section \<open>Idempotence of the install phases\<close>

text \<open>
  Claim C3. For every host and every install phase (Bootstrap, Repository,
  BinaryService, ContainerManager, Provisioning): when the condition of the phase is true
  at the start of a reconcile, executing the phase makes no call on the host and returns
  nil at once, having only marked its condition true again; and after any succession of
  install phases the reconcile runs from there, the condition is still true.
\<close>

theorem phase_noop_when_true:
  assumes "IsTrue (KKInstance s) (phase_condition P)"
  shows "reconcile P r w s =
           (None, s\<lparr>KKInstance := MarkTrue (KKInstance s) (phase_condition P)\<rparr>) \<and>
         calls (snd (reconcile P r w s)) = calls s \<and>
         IsTrue (KKInstance (snd (reconcile P r w s))) (phase_condition P) \<and>
         IsTrue (KKInstance (run_phases (map reconcile ps) r w s)) (phase_condition P)"
  using assms
  by (simp add: reconcile_when_true run_phases_keeps_true IsTrue_MarkTrue)

theorem phase_noop_when_true_witness:
  "IsTrue (KKInstance (new_scope [''Bootstrapped'' \<mapsto> TrueCondition]))
     (phase_condition Bootstrap) \<and>
   calls (snd (reconcile Bootstrap reconciler_10m (failing_world Check ''no yum'')
     (new_scope [''Bootstrapped'' \<mapsto> TrueCondition]))) = [] \<and>
   IsTrue (KKInstance (run_phases (map reconcile [Bootstrap, Repository, BinaryService])
     reconciler_10m (failing_world Check ''no yum'')
     (new_scope [''Bootstrapped'' \<mapsto> TrueCondition]))) (phase_condition Bootstrap)"
proof -
  have h: "IsTrue (KKInstance (new_scope [''Bootstrapped'' \<mapsto> TrueCondition]))
     (phase_condition Bootstrap)"
    by (simp add: IsTrue_def Get_def new_scope_def TrueCondition_def)
  have c: "calls (new_scope [''Bootstrapped'' \<mapsto> TrueCondition]) = []"
    by (simp add: new_scope_def)
  note t = phase_noop_when_true[OF h, of reconciler_10m "failing_world Check ''no yum''"
      "[Bootstrap, Repository, BinaryService]"]
  from t[THEN conjunct2, THEN conjunct1]
  have 1: "calls (snd (reconcile Bootstrap reconciler_10m (failing_world Check ''no yum'')
     (new_scope [''Bootstrapped'' \<mapsto> TrueCondition]))) = []"
    unfolding c .
  from h 1 t[THEN conjunct2, THEN conjunct2, THEN conjunct2] show ?thesis
    by (intro conjI)
qed

section \<open>Conditions written by the install phases\<close>



section \<open>The repository phase releases the ISO\<close>

text \<open>
  Claim C7. In every execution of the repository phase that calls \<^verbatim>\<open>MountISO\<close>, the phase
  calls \<^verbatim>\<open>UmountISO\<close> before it returns, as its last call, on every exit path: when
  \<^verbatim>\<open>MountISO\<close> itself fails (the calls are Check, Get, MountISO, UmountISO) and when
  \<^verbatim>\<open>UpdateAndInstall\<close> fails or succeeds (Check, Get, MountISO, UpdateAndInstall,
  UmountISO). The mount is reached whenever the condition is not yet true and Check and
  Get succeed. When Check or Get fails, neither the mount nor the unmount is called.
\<close>

theorem repository_umount:
  assumes "reconcileRepository r w s = (err, s')"
  shows "calls s' = calls s @ repository_calls r w s \<and>
    (MountISO \<in> set (repository_calls r w s) \<longrightarrow>
       last (calls s') = UmountISO \<and>
       (repository_calls r w s =
          [Check, RepositoryGet (WaitKKInstanceTimeout r), MountISO, UmountISO] \<or>
        repository_calls r w s =
          [Check, RepositoryGet (WaitKKInstanceTimeout r), MountISO, UpdateAndInstall,
           UmountISO])) \<and>
    (\<not> IsTrue (KKInstance s) ''RepositoryReady'' \<and>
     respond w (calls s) Check = None \<and>
     respond w (calls s @ [Check]) (RepositoryGet (WaitKKInstanceTimeout r)) = None \<longrightarrow>
       MountISO \<in> set (repository_calls r w s)) \<and>
    (respond w (calls s) Check \<noteq> None \<or>
     respond w (calls s @ [Check]) (RepositoryGet (WaitKKInstanceTimeout r)) \<noteq> None \<longrightarrow>
       MountISO \<notin> set (repository_calls r w s) \<and> UmountISO \<notin> set (repository_calls r w s))"
proof -
  have 1: "calls s' = calls s @ repository_calls r w s"
    using repository_calls_ok[of r w s] unfolding assms by simp
  have 2: "MountISO \<in> set (repository_calls r w s) \<longrightarrow>
       last (calls s') = UmountISO \<and>
       (repository_calls r w s =
          [Check, RepositoryGet (WaitKKInstanceTimeout r), MountISO, UmountISO] \<or>
        repository_calls r w s =
          [Check, RepositoryGet (WaitKKInstanceTimeout r), MountISO, UpdateAndInstall,
           UmountISO])"
  proof
    assume "MountISO \<in> set (repository_calls r w s)"
    from repository_calls_shape[OF this] show "last (calls s') = UmountISO \<and>
       (repository_calls r w s =
          [Check, RepositoryGet (WaitKKInstanceTimeout r), MountISO, UmountISO] \<or>
        repository_calls r w s =
          [Check, RepositoryGet (WaitKKInstanceTimeout r), MountISO, UpdateAndInstall,
           UmountISO])"
      unfolding 1 by auto
  qed
  have 3: "\<not> IsTrue (KKInstance s) ''RepositoryReady'' \<and>
     respond w (calls s) Check = None \<and>
     respond w (calls s @ [Check]) (RepositoryGet (WaitKKInstanceTimeout r)) = None \<longrightarrow>
       MountISO \<in> set (repository_calls r w s)"
    by (simp add: repository_calls_def Let_def)
  have 4: "respond w (calls s) Check \<noteq> None \<or>
     respond w (calls s @ [Check]) (RepositoryGet (WaitKKInstanceTimeout r)) \<noteq> None \<longrightarrow>
       MountISO \<notin> set (repository_calls r w s) \<and> UmountISO \<notin> set (repository_calls r w s)"
    using repository_calls_no_mount[of w s r] by blast
  from 1 2 3 4 show ?thesis by (intro conjI)
qed

theorem repository_umount_witness:
  "reconcileRepository reconciler_10m (failing_world MountISO ''no iso'') (new_scope Map.empty) =
     (Some ''no iso'',
      \<lparr>KKInstance = [''RepositoryReady'' \<mapsto>
         FalseCondition ''RepositoryFailed'' ConditionSeverityWarning (Sprintf ''no iso'' [])],
       state = InstanceStatePending, CRISocket = ''/run/containerd/containerd.sock'',
       calls = [Check, RepositoryGet 600000000000, MountISO, UmountISO], events = []\<rparr>) \<and>
   MountISO \<in> set (repository_calls reconciler_10m (failing_world MountISO ''no iso'')
     (new_scope Map.empty)) \<and>
   last [Check, RepositoryGet 600000000000, MountISO, UmountISO] = UmountISO"
proof -
  note t = repository_umount[OF repository_mount_fails]
  have m: "MountISO \<in> set (repository_calls reconciler_10m (failing_world MountISO ''no iso'')
     (new_scope Map.empty))"
    by (simp add: repository_calls_def failing_world_def new_scope_def reconciler_10m_def
        IsTrue_def Get_def)
  from t[THEN conjunct2, THEN conjunct1, rule_format, OF m, THEN conjunct1]
  have "last [Check, RepositoryGet 600000000000, MountISO, UmountISO] = UmountISO"
    by simp
  with repository_mount_fails m show ?thesis by (intro conjI)
qed

section \<open>The list of phases by distribution\<close>

text \<open>
  Claim C2, as amended. \<^verbatim>\<open>phaseFactory\<close> selects the list of phases by the distribution:
  for K3s the list is Bootstrap, Repository, BinaryService, Provisioning, without the
  ContainerManager phase, and no phase of this list, run in any number and order, writes
  the CRIReady condition; for Kubernetes the list is the full sequence Bootstrap,
  Repository, BinaryService, ContainerManager, Provisioning; for every other distribution
  the list is empty and no phase is executed. The counterexample is the distribution
  \<^verbatim>\<open>k8e\<close>, for which the claim as stated promises the full sequence.
\<close>

theorem phaseFactory_by_distribution:
  "phaseFactory K3S =
     [reconcileBootstrap, reconcileRepository, reconcileBinaryService, reconcileProvisioning] \<and>
   (set fs \<subseteq> set (phaseFactory K3S) \<longrightarrow>
      KKInstance (run_phases fs r w s) ''CRIReady'' = KKInstance s ''CRIReady'') \<and>
   phaseFactory KUBERNETES =
     [reconcileBootstrap, reconcileRepository, reconcileBinaryService,
      reconcileContainerManager, reconcileProvisioning] \<and>
   (d \<noteq> KUBERNETES \<and> d \<noteq> K3S \<longrightarrow> phaseFactory d = [])"
  using run_K3S_phases_keep_CRIReady[of fs r w s]
  by (simp add: phaseFactory_def K3S_def KUBERNETES_def)

theorem phaseFactory_other_counterexample:
  "''k8e'' \<noteq> K3S \<and> phaseFactory ''k8e'' = []"
  by (simp add: phaseFactory_def K3S_def KUBERNETES_def)

theorem phaseFactory_by_distribution_witness:
  "set (phaseFactory K3S) \<subseteq> set (phaseFactory K3S) \<and>
   KKInstance (run_phases (phaseFactory K3S) reconciler_10m
       (failing_world Install ''no runtime'') (new_scope Map.empty)) ''CRIReady'' = None \<and>
   ''k8e'' \<noteq> KUBERNETES \<and> ''k8e'' \<noteq> K3S \<and> phaseFactory ''k8e'' = []"
proof -
  note t = phaseFactory_by_distribution[of "phaseFactory K3S" reconciler_10m
      "failing_world Install ''no runtime''" "new_scope Map.empty" "''k8e''"]
  have n: "''k8e'' \<noteq> KUBERNETES" "''k8e'' \<noteq> K3S"
    by (simp_all add: K3S_def KUBERNETES_def)
  from t[THEN conjunct2, THEN conjunct1]
  have 1: "KKInstance (run_phases (phaseFactory K3S) reconciler_10m
       (failing_world Install ''no runtime'') (new_scope Map.empty)) ''CRIReady'' = None"
    by (simp add: new_scope_def)
  from t[THEN conjunct2, THEN conjunct2, THEN conjunct2] n
  have 2: "phaseFactory ''k8e'' = []" by simp
  from 1 2 n show ?thesis by simp
qed

section \<open>Aggregation: machines reporting info\<close>

text \<open>
  Claim C1. The claim gives the order errors, warnings, info, true, unknown. The code
  follows it for errors and warnings, and then tests the set of warnings a second time
  where its comment announces the test of the info set. So with no error at the level of
  the control plane and no machine reporting an error or a warning, machines that report
  false with severity Info are not reported: the condition of the control plane is marked
  true when some machine reports true, and is left as it was when every reported
  condition is an info one. The witness evaluates both on a machine that is being
  deleted.
\<close>

theorem aggregate_skips_info:
  assumes "kcpErrors input = []"
    and "\<forall>c \<in> set (input_reported input). \<not> is_error c \<and> \<not> is_warning c"
    and "\<exists>c \<in> set (input_reported input). is_info c"
  shows "((\<exists>c \<in> set (input_reported input). Status c = ConditionTrue) \<longrightarrow>
            aggregateFromMachinesToKCP input =
              MarkTrue (KCP (controlPlane input)) (condition input)) \<and>
         ((\<forall>c \<in> set (input_reported input). is_info c) \<longrightarrow>
            aggregateFromMachinesToKCP input = KCP (controlPlane input))"
  using aggregate_no_error_no_warning[OF assms(1,2)]
  by (auto simp: is_info_def)

theorem aggregate_skips_info_witness:
  "kcpErrors (agent_input [machine_with ''m1'' deleting, machine_with ''m2'' TrueCondition] []) = [] \<and>
   input_reported (agent_input [machine_with ''m1'' deleting, machine_with ''m2'' TrueCondition] [])
     = [deleting, TrueCondition] \<and>
   is_info deleting \<and> \<not> is_error deleting \<and> \<not> is_warning deleting \<and>
   \<not> is_error TrueCondition \<and> \<not> is_warning TrueCondition \<and>
   aggregateFromMachinesToKCP
     (agent_input [machine_with ''m1'' deleting, machine_with ''m2'' TrueCondition] [])
     ''ControlPlaneComponentsHealthy'' = Some TrueCondition \<and>
   input_reported (agent_input [machine_with ''m1'' deleting] []) = [deleting] \<and>
   aggregateFromMachinesToKCP (agent_input [machine_with ''m1'' deleting] [])
     ''ControlPlaneComponentsHealthy'' = None"
proof -
  have f: "is_info deleting" "\<not> is_error deleting" "\<not> is_warning deleting"
    "\<not> is_error TrueCondition" "\<not> is_warning TrueCondition"
    "Status TrueCondition = ConditionTrue"
    by (simp_all add: deleting_def is_info_def is_error_def is_warning_def FalseCondition_def
        TrueCondition_def)
  let ?in2 = "agent_input [machine_with ''m1'' deleting, machine_with ''m2'' TrueCondition] []"
  let ?in1 = "agent_input [machine_with ''m1'' deleting] []"
  have "aggregateFromMachinesToKCP ?in2 = MarkTrue (KCP (controlPlane ?in2)) (condition ?in2)"
    using aggregate_skips_info[of ?in2] f by simp
  then have 2: "aggregateFromMachinesToKCP ?in2 ''ControlPlaneComponentsHealthy'' =
      Some TrueCondition"
    by (simp add: MarkTrue_def)
  have "aggregateFromMachinesToKCP ?in1 = KCP (controlPlane ?in1)"
    using aggregate_skips_info[of ?in1] f by simp
  then have 1: "aggregateFromMachinesToKCP ?in1 ''ControlPlaneComponentsHealthy'' = None"
    by simp
  from 1 2 f show ?thesis by simp
qed

section \<open>Aggregation: all true, some error, all unknown\<close>

text \<open>
  Claim C6, as amended. With no error at the level of the control plane and at least
  one machine carrying an aggregated condition, machines whose conditions are all true
  give a true condition, and machines whose conditions are all unknown give an unknown
  condition with the unknown reason. Any set of machines with at least one condition
  that is false with severity Error gives a false condition with severity Error and the
  unhealthy reason. The counterexample is a machine reporting true next to an error
  of the control plane itself (a node without a machine): the result is false with
  severity Error.
\<close>

theorem aggregate_round_trip:
  "(kcpErrors input = [] \<and> input_reported input \<noteq> [] \<and>
    (\<forall>c \<in> set (input_reported input). Status c = ConditionTrue) \<longrightarrow>
      aggregateFromMachinesToKCP input =
        MarkTrue (KCP (controlPlane input)) (condition input)) \<and>
   ((\<exists>c \<in> set (input_reported input). is_error c) \<longrightarrow>
      (\<exists>m. aggregateFromMachinesToKCP input =
         MarkFalse (KCP (controlPlane input)) (condition input) (unhealthyReason input)
           ConditionSeverityError m)) \<and>
   (kcpErrors input = [] \<and> input_reported input \<noteq> [] \<and>
    (\<forall>c \<in> set (input_reported input). Status c = ConditionUnknown) \<longrightarrow>
      (\<exists>m. aggregateFromMachinesToKCP input =
         MarkUnknown (KCP (controlPlane input)) (condition input) (unknownReason input) m))"
proof (intro conjI impI)
  assume a: "kcpErrors input = [] \<and> input_reported input \<noteq> [] \<and>
    (\<forall>c \<in> set (input_reported input). Status c = ConditionTrue)"
  then have "\<forall>c \<in> set (input_reported input). \<not> is_error c \<and> \<not> is_warning c"
    by (simp add: is_error_def is_warning_def)
  from aggregate_no_error_no_warning[OF _ this] a
  show "aggregateFromMachinesToKCP input =
        MarkTrue (KCP (controlPlane input)) (condition input)"
    by (cases "input_reported input") auto
next
  assume "\<exists>c \<in> set (input_reported input). is_error c"
  then show "\<exists>m. aggregateFromMachinesToKCP input =
         MarkFalse (KCP (controlPlane input)) (condition input) (unhealthyReason input)
           ConditionSeverityError m"
    by (intro aggregate_error) simp
next
  assume a: "kcpErrors input = [] \<and> input_reported input \<noteq> [] \<and>
    (\<forall>c \<in> set (input_reported input). Status c = ConditionUnknown)"
  then have "\<forall>c \<in> set (input_reported input). \<not> is_error c \<and> \<not> is_warning c"
    by (simp add: is_error_def is_warning_def)
  from aggregate_no_error_no_warning[OF _ this] a
  show "\<exists>m. aggregateFromMachinesToKCP input =
         MarkUnknown (KCP (controlPlane input)) (condition input) (unknownReason input) m"
    by (cases "input_reported input") auto
qed

theorem aggregate_all_true_counterexample:
  "input_reported (agent_input [machine_with ''m1'' TrueCondition]
      [''Control plane node n2 does not have a corresponding machine'']) = [TrueCondition] \<and>
   aggregateFromMachinesToKCP (agent_input [machine_with ''m1'' TrueCondition]
      [''Control plane node n2 does not have a corresponding machine''])
     ''ControlPlaneComponentsHealthy'' =
   Some (FalseCondition ''ControlPlaneComponentsUnhealthy'' ConditionSeverityError
     (Sprintf ''Control plane node n2 does not have a corresponding machine'' []))"
proof -
  have 1: "input_reported (agent_input [machine_with ''m1'' TrueCondition]
      [''Control plane node n2 does not have a corresponding machine'']) = [TrueCondition]"
    by (rule input_reported_one)
  have 2: "aggregateFromMachinesToKCP (agent_input [machine_with ''m1'' TrueCondition]
      [''Control plane node n2 does not have a corresponding machine''])
     ''ControlPlaneComponentsHealthy'' =
   Some (FalseCondition ''ControlPlaneComponentsUnhealthy'' ConditionSeverityError
     (Sprintf ''Control plane node n2 does not have a corresponding machine'' []))"
    by (simp add: aggregateFromMachinesToKCP_def agent_input_def machine_with_def Get_def
      group_condition_def TrueCondition_def no_groups_def MarkFalse_def Insert_def)
  from 1 2 show ?thesis by (intro conjI)
qed

theorem aggregate_round_trip_witness:
  "aggregateFromMachinesToKCP (agent_input [machine_with ''m1'' TrueCondition,
       machine_with ''m2'' TrueCondition] []) ''ControlPlaneComponentsHealthy'' =
     Some TrueCondition \<and>
   map_option Status (aggregateFromMachinesToKCP (agent_input [machine_with ''m1'' TrueCondition,
       machine_with ''m2'' (FalseCondition ''PodFailed'' ConditionSeverityError
         (Sprintf ''Missing node'' []))] []) ''ControlPlaneComponentsHealthy'') =
     Some ConditionFalse \<and>
   map_option Severity (aggregateFromMachinesToKCP (agent_input [machine_with ''m1'' TrueCondition,
       machine_with ''m2'' (FalseCondition ''PodFailed'' ConditionSeverityError
         (Sprintf ''Missing node'' []))] []) ''ControlPlaneComponentsHealthy'') =
     Some ConditionSeverityError \<and>
   map_option Status (aggregateFromMachinesToKCP (agent_input
       [machine_with ''m1'' (UnknownCondition ''PodInspectionFailed''
         (Sprintf ''Node is unreachable'' []))] []) ''ControlPlaneComponentsHealthy'') =
     Some ConditionUnknown"
proof -
  let ?t = "agent_input [machine_with ''m1'' TrueCondition, machine_with ''m2'' TrueCondition] []"
  let ?e = "agent_input [machine_with ''m1'' TrueCondition,
       machine_with ''m2'' (FalseCondition ''PodFailed'' ConditionSeverityError
         (Sprintf ''Missing node'' []))] []"
  let ?u = "agent_input [machine_with ''m1'' (UnknownCondition ''PodInspectionFailed''
         (Sprintf ''Node is unreachable'' []))] []"
  have "aggregateFromMachinesToKCP ?t = MarkTrue (KCP (controlPlane ?t)) (condition ?t)"
    using aggregate_round_trip[of ?t, THEN conjunct1] by (simp add: TrueCondition_def)
  then have 1: "aggregateFromMachinesToKCP ?t ''ControlPlaneComponentsHealthy'' =
      Some TrueCondition"
    by (simp add: MarkTrue_def)
  have "\<exists>m. aggregateFromMachinesToKCP ?e =
         MarkFalse (KCP (controlPlane ?e)) (condition ?e) (unhealthyReason ?e)
           ConditionSeverityError m"
    using aggregate_round_trip[of ?e, THEN conjunct2, THEN conjunct1]
    by (simp add: is_error_def FalseCondition_def)
  then have 2: "map_option Status (aggregateFromMachinesToKCP ?e
        ''ControlPlaneComponentsHealthy'') = Some ConditionFalse"
    and 3: "map_option Severity (aggregateFromMachinesToKCP ?e
        ''ControlPlaneComponentsHealthy'') = Some ConditionSeverityError"
    by (auto simp: MarkFalse_def FalseCondition_def)
  have "\<exists>m. aggregateFromMachinesToKCP ?u =
         MarkUnknown (KCP (controlPlane ?u)) (condition ?u) (unknownReason ?u) m"
    using aggregate_round_trip[of ?u, THEN conjunct2, THEN conjunct2]
    by (simp add: UnknownCondition_def)
  then have 4: "map_option Status (aggregateFromMachinesToKCP ?u
        ''ControlPlaneComponentsHealthy'') = Some ConditionUnknown"
    by (auto simp: MarkUnknown_def UnknownCondition_def)
  from 1 2 3 4 show ?thesis by (intro conjI)
qed

section \<open>The first master of the hosts file\<close>

text \<open>
  Claim C9. When the address of the control-plane endpoint is empty, \<^verbatim>\<open>GenerateHosts\<close>
  takes the internal IPv4 address of the first host with the master role without testing
  that there is one: with at least one master the call returns a list whose last entry
  is built from that address, and with no master the index is out of range and the call
  panics. With a non-empty address the call returns.
\<close>

theorem GenerateHosts_master_index:
  "(ControlPlaneEndpointAddress kubeConf = [] \<and> GetHostsByRole runtime Master \<noteq> [] \<longrightarrow>
      (\<exists>hostsList. GenerateHosts base runtime kubeConf = Inr hostsList \<and>
         last hostsList =
           GetInternalIPv4Address (hd (GetHostsByRole runtime Master)) @ ''  '' @
           ControlPlaneEndpointDomain kubeConf)) \<and>
   (ControlPlaneEndpointAddress kubeConf = [] \<and> GetHostsByRole runtime Master = [] \<longrightarrow>
      GenerateHosts base runtime kubeConf = Inl IndexOutOfRange) \<and>
   (ControlPlaneEndpointAddress kubeConf \<noteq> [] \<longrightarrow>
      (\<exists>hostsList. GenerateHosts base runtime kubeConf = Inr hostsList))"
  by (simp add: GenerateHosts_eq endpoint_entry_def)

theorem GenerateHosts_master_index_witness:
  "ControlPlaneEndpointAddress (conf_lb [] []) = [] \<and>
   GetHostsByRole one_master Master \<noteq> [] \<and>
   GenerateHosts ''dockerhub.kubekey.local'' one_master (conf_lb [] []) =
     Inr [''10.0.0.1  node1.cluster.local node1'', ''10.0.0.1  lb.kubesphere.local''] \<and>
   GetHostsByRole no_master Master = [] \<and>
   GenerateHosts ''dockerhub.kubekey.local'' no_master (conf_lb [] []) = Inl IndexOutOfRange"
proof -
  have a: "ControlPlaneEndpointAddress (conf_lb [] []) = []" by (simp add: conf_lb_def)
  have m: "GetHostsByRole one_master Master \<noteq> []" by (simp add: one_master_def Master_def)
  have n: "GetHostsByRole no_master Master = []" by (simp add: no_master_def)
  have 1: "GenerateHosts ''dockerhub.kubekey.local'' one_master (conf_lb [] []) =
     Inr [''10.0.0.1  node1.cluster.local node1'', ''10.0.0.1  lb.kubesphere.local'']"
    by (simp add: GenerateHosts_def one_master_def conf_lb_def node1_def Master_def
        Registry_def)
  from GenerateHosts_master_index[of "conf_lb [] []" no_master "''dockerhub.kubekey.local''",
      THEN conjunct2, THEN conjunct1] a n
  have 2: "GenerateHosts ''dockerhub.kubekey.local'' no_master (conf_lb [] []) =
      Inl IndexOutOfRange"
    by simp
  from a m 1 n 2 show ?thesis by (intro conjI)
qed

section \<open>The order of the hosts file\<close>



section \<open>The machine to delete\<close>




end
